theory Spec2Isabelle
  imports Complex_Main
begin

section \<open>JavaScript values\<close>

text \<open>
  The handlers read a parsed JSON request body and answer with a JavaScript object that
  Express serialises. A property that is absent reads as \<open>JUndefined\<close>. \<open>JNum r\<close> is a
  number of value \<open>r\<close> (a parsed JSON number is never NaN).
\<close>

datatype jsval =
    JUndefined
  | JNull
  | JBool bool
  | JNum real
  | JStr string
  | JArr "jsval list"
  | JObj "(string \<times> jsval) list"

text \<open>JavaScript's truthiness, as \<open>!x\<close> and \<open>x || y\<close> test it.\<close>

fun truthy :: "jsval \<Rightarrow> bool" where
  "truthy JUndefined = False"
| "truthy JNull = False"
| "truthy (JBool b) = b"
| "truthy (JNum r) = (r \<noteq> 0)"
| "truthy (JStr s) = (s \<noteq> [])"
| "truthy (JArr xs) = True"
| "truthy (JObj kvs) = True"

text \<open>Reading a property of an object literal: the first binding of the key.\<close>

fun get_prop :: "jsval \<Rightarrow> string \<Rightarrow> jsval" where
  "get_prop (JObj kvs) k = (case map_of kvs k of Some v \<Rightarrow> v | None \<Rightarrow> JUndefined)"
| "get_prop v k = JUndefined"

text \<open>
  The keys of a response body that reach the wire, in order: \<open>JSON.stringify\<close> drops a
  property whose value is \<open>undefined\<close>. \<open>has_field v k\<close>: the serialised JSON of \<open>v\<close>
  has the key \<open>k\<close>.
\<close>

fun wire_keys :: "jsval \<Rightarrow> string list" where
  "wire_keys (JObj kvs) = map fst (filter (\<lambda>kv. snd kv \<noteq> JUndefined) kvs)"
| "wire_keys v = []"

definition has_field :: "jsval \<Rightarrow> string \<Rightarrow> bool" where
  "has_field v k = (k \<in> set (wire_keys v))"


section \<open>Strings\<close>

text \<open>
  Strings are byte strings; \<open>trim\<close> and \<open>toLowerCase\<close> act on the ASCII range, which is
  all the literals of the source need (\<open>taxes\<close>, \<open>$\<close>, \<open>http\<close>, \<open>image/\<close>).
\<close>

definition startsWith :: "string \<Rightarrow> string \<Rightarrow> bool" where
  "startsWith s p = (take (length p) s = p)"

fun js_includes :: "string \<Rightarrow> string \<Rightarrow> bool" where
  "js_includes [] p = (p = [])"
| "js_includes (c # cs) p = (startsWith (c # cs) p \<or> js_includes cs p)"

definition is_space :: "char \<Rightarrow> bool" where
  "is_space c = (c = CHR '' '' \<or> (9 \<le> (of_char c :: nat) \<and> (of_char c :: nat) \<le> 13))"

definition trim :: "string \<Rightarrow> string" where
  "trim s = rev (dropWhile is_space (rev (dropWhile is_space s)))"

definition lower_char :: "char \<Rightarrow> char" where
  "lower_char c =
     (if 65 \<le> (of_char c :: nat) \<and> (of_char c :: nat) \<le> 90
      then char_of ((of_char c :: nat) + 32) else c)"

definition toLowerCase :: "string \<Rightarrow> string" where
  "toLowerCase s = map lower_char s"

text \<open>\<open>Array.prototype.join\<close> on strings.\<close>

fun join :: "string \<Rightarrow> string list \<Rightarrow> string" where
  "join sep [] = []"
| "join sep [x] = x"
| "join sep (x # y # ys) = x @ sep @ join sep (y # ys)"

text \<open>
  \<open>e?.p || d\<close> for a string property \<open>p\<close>: the default \<open>d\<close> when the element is
  missing (the chain gives \<open>undefined\<close>) or the string is empty (falsy).
\<close>

fun or_default :: "string option \<Rightarrow> string \<Rightarrow> string" where
  "or_default None d = d"
| "or_default (Some s) d = (if s = [] then d else s)"

section \<open>The page: DOM elements as the extractors observe them\<close>

text \<open>
  The browser's selector engine is an external collaborator. An element is what the
  extraction callbacks can observe of it: its \<open>textContent\<close>, its attributes, its
  \<open>href\<close> property, its element children, and the answers of \<open>querySelectorAll\<close> and
  \<open>closest\<close> for a selector. The document is an element too.
\<close>

datatype element = Element
  (textContent: string)
  (attributes: "(string \<times> string) list")
  (href: string)
  (children: "element list")
  (querySelectorAll: "string \<Rightarrow> element list")
  (closest: "string \<Rightarrow> element option")

text \<open>\<open>querySelector\<close> is the first match of \<open>querySelectorAll\<close>, or \<open>null\<close>.\<close>

definition querySelector :: "element \<Rightarrow> string \<Rightarrow> element option" where
  "querySelector e sel = (case querySelectorAll e sel of [] \<Rightarrow> None | x # xs \<Rightarrow> Some x)"

definition getAttribute :: "element \<Rightarrow> string \<Rightarrow> string option" where
  "getAttribute e name = map_of (attributes e) name"

text \<open>\<open>xs[i]\<close> on an array-like: \<open>undefined\<close> out of range.\<close>

definition at_index :: "'a list \<Rightarrow> nat \<Rightarrow> 'a option" where
  "at_index xs i = (if i < length xs then Some (xs ! i) else None)"

section \<open>Errors, operations and the world\<close>

datatype js_error = Error (message: string) (stack: string)

text \<open>
  The calls a handler makes on the browser automation library. Selectors, URLs and
  timeouts (in milliseconds; \<open>None\<close> is the library's default) are the source's.
\<close>

datatype op =
    Launch
  | NewContext
  | SetExtraHTTPHeaders
  | NewPage
  | SetViewport
  | AddInitScript
  | Route
  | Goto string
  | MouseMove
  | TypeChar char
  | Press string
  | Click string
  | WaitForSelector string "nat option"
  | WaitForVisible string nat
  | WaitForNavigation "nat option"
  | WaitForTimeout nat
  | Evaluate string
  | Query string
  | QueryAll string
  | HandleClick
  | OptionText nat
  | OptionClick nat
  | Close

datatype event =
    Done op
  | Failed op js_error
  | Respond nat jsval

text \<open>The result of one HEAD request: a rejected promise, or a status and a content type.\<close>

datatype fetch_result =
    Rejected js_error
  | Response nat "string option"

text \<open>
  Everything outside the handler. What a call does may depend on all that happened
  before it in the request, so each oracle reads the trace so far:
  \<^item> \<open>fails\<close>: the call throws this error (a timeout, a navigation failure, ...);
  \<^item> \<open>document\<close>: the DOM a \<open>page.evaluate\<close> callback runs against;
  \<^item> \<open>found\<close>: whether \<open>page.$\<close> or \<open>waitForSelector\<close> gives a handle rather than \<open>null\<close>;
  \<^item> \<open>handles\<close>: how many handles \<open>page.$$\<close> gives;
  \<^item> \<open>option_text\<close>: what \<open>textContent()\<close> of the i-th handle gives (\<open>None\<close> is \<open>null\<close>);
  \<^item> \<open>fetch_head\<close>: the outcome of the i-th HEAD request of the validation pass;
  \<^item> \<open>completion_order\<close>: the order in which those requests settle;
  \<^item> \<open>node_env\<close>: \<open>process.env.NODE_ENV\<close>;
  \<^item> \<open>to_string\<close>, \<open>encodeURIComponent\<close>, \<open>formatDate\<close>: the engine's string conversion,
    percent-encoding (a URIError on a lone surrogate) and date formatting.
\<close>

record world =
  fails :: "event list \<Rightarrow> op \<Rightarrow> js_error option"
  document :: "event list \<Rightarrow> element"
  found :: "event list \<Rightarrow> op \<Rightarrow> bool"
  handles :: "event list \<Rightarrow> nat"
  option_text :: "event list \<Rightarrow> nat \<Rightarrow> string option"
  fetch_head :: "nat \<Rightarrow> jsval \<Rightarrow> fetch_result"
  completion_order :: "nat list"
  node_env :: "string option"
  to_string :: "jsval \<Rightarrow> string"
  encodeURIComponent :: "string \<Rightarrow> js_error + string"
  formatDate :: "jsval \<Rightarrow> string"

section \<open>Handlers as computations over the trace\<close>

text \<open>
  A computation reads and extends the trace of the request and either throws
  (\<open>Inl\<close>) or returns (\<open>Inr\<close>).
\<close>

type_synonym 'a io = "event list \<Rightarrow> (js_error + 'a) \<times> event list"

definition io_return :: "'a \<Rightarrow> 'a io" where
  "io_return x = (\<lambda>tr. (Inr x, tr))"

definition io_throw :: "js_error \<Rightarrow> 'a io" where
  "io_throw e = (\<lambda>tr. (Inl e, tr))"

definition io_bind :: "'a io \<Rightarrow> ('a \<Rightarrow> 'b io) \<Rightarrow> 'b io" where
  "io_bind m k = (\<lambda>tr. case m tr of (Inl e, tr') \<Rightarrow> (Inl e, tr') | (Inr x, tr') \<Rightarrow> k x tr')"

definition io_then :: "'a io \<Rightarrow> 'b io \<Rightarrow> 'b io" where
  "io_then m k = io_bind m (\<lambda>x. k)"

text \<open>\<open>try { m } catch (e) { h e }\<close>.\<close>

definition try_catch :: "'a io \<Rightarrow> (js_error \<Rightarrow> 'a io) \<Rightarrow> 'a io" where
  "try_catch m h = (\<lambda>tr. case m tr of (Inl e, tr') \<Rightarrow> h e tr' | (Inr x, tr') \<Rightarrow> (Inr x, tr'))"

definition lift :: "js_error + 'a \<Rightarrow> 'a io" where
  "lift r = (\<lambda>tr. (r, tr))"

text \<open>An awaited library call: it throws or completes, and the trace records which.\<close>

definition call :: "world \<Rightarrow> op \<Rightarrow> unit io" where
  "call w c = (\<lambda>tr. case fails w tr c of
                  Some e \<Rightarrow> (Inl e, tr @ [Failed c e])
                | None \<Rightarrow> (Inr (), tr @ [Done c]))"

text \<open>A call that gives a handle or \<open>null\<close>.\<close>

definition query :: "world \<Rightarrow> op \<Rightarrow> bool io" where
  "query w c = (\<lambda>tr. case fails w tr c of
                  Some e \<Rightarrow> (Inl e, tr @ [Failed c e])
                | None \<Rightarrow> (Inr (found w tr c), tr @ [Done c]))"

text \<open>\<open>page.evaluate(f)\<close>: the callback runs, in one piece, against the page's DOM.\<close>

definition evaluate :: "world \<Rightarrow> string \<Rightarrow> (element \<Rightarrow> 'a) \<Rightarrow> 'a io" where
  "evaluate w label f = (\<lambda>tr. case fails w tr (Evaluate label) of
                  Some e \<Rightarrow> (Inl e, tr @ [Failed (Evaluate label) e])
                | None \<Rightarrow> (Inr (f (document w tr)), tr @ [Done (Evaluate label)]))"

text \<open>\<open>res.status(s).json(b)\<close>.\<close>

definition respond :: "nat \<Rightarrow> jsval \<Rightarrow> unit io" where
  "respond s b = (\<lambda>tr. (Inr (), tr @ [Respond s b]))"

text \<open>A run of awaited calls, one after the other.\<close>

fun calls :: "world \<Rightarrow> op list \<Rightarrow> unit io" where
  "calls w [] = io_return ()"
| "calls w (c # cs) = io_then (call w c) (calls w cs)"

text \<open>The trace of a handler, and the responses in a trace.\<close>

definition run :: "unit io \<Rightarrow> event list" where
  "run m = snd (m [])"

fun responses :: "event list \<Rightarrow> (nat \<times> jsval) list" where
  "responses [] = []"
| "responses (Respond s b # evs) = (s, b) # responses evs"
| "responses (ev # evs) = responses evs"

section \<open>Image validation\<close>

text \<open>
  \<open>validateImageUrl\<close>, for the i-th HEAD request of a validation pass:
  \<^verbatim>\<open>
  try {
    const response = await fetch(url, { method: 'HEAD' });
    const contentType = response.headers.get('content-type');
    return response.ok && contentType !== null && contentType.startsWith('image/');
  } catch (error) { console.error(...); return false; }
  \<close>
  \<open>response.ok\<close> is a status in the range 200 to 299.
\<close>

definition response_ok :: "nat \<Rightarrow> bool" where
  "response_ok st = (200 \<le> st \<and> st \<le> 299)"

definition fetch :: "world \<Rightarrow> nat \<Rightarrow> jsval \<Rightarrow> (nat \<times> string option) io" where
  "fetch w i url = (case fetch_head w i url of
                      Rejected e \<Rightarrow> io_throw e
                    | Response st ct \<Rightarrow> io_return (st, ct))"

definition validateImageUrl :: "world \<Rightarrow> nat \<Rightarrow> jsval \<Rightarrow> bool io" where
  "validateImageUrl w i url =
     try_catch
       (io_bind (fetch w i url) (\<lambda>response.
          let contentType = snd response in
          io_return (response_ok (fst response) \<and> contentType \<noteq> None
                     \<and> startsWith (the contentType) ''image/'')))
       (\<lambda>error. io_return False)"

text \<open>
  \<open>Promise.all\<close> over tasks that settle in some order. Every task settles once: an
  entry of the order that is out of range or repeated is skipped, and the tasks the
  order leaves out settle after it. The first rejection rejects the whole; otherwise
  each value lands in the slot of its task.
\<close>

definition settle_order :: "nat \<Rightarrow> nat list \<Rightarrow> nat list" where
  "settle_order n order = remdups (filter (\<lambda>i. i < n) order @ [0..<n])"

fun settle :: "(js_error + 'a) list \<Rightarrow> nat list \<Rightarrow> 'a option list \<Rightarrow> js_error + 'a option list" where
  "settle rs [] slots = Inr slots"
| "settle rs (i # is) slots =
     (case rs ! i of Inl e \<Rightarrow> Inl e | Inr v \<Rightarrow> settle rs is (slots[i := Some v]))"

definition promise_all :: "(js_error + 'a) list \<Rightarrow> nat list \<Rightarrow> js_error + 'a list" where
  "promise_all rs order =
     (case settle rs (settle_order (length rs) order) (replicate (length rs) None) of
        Inl e \<Rightarrow> Inl e
      | Inr slots \<Rightarrow> Inr (map the slots))"

text \<open>
  The validation pass of the images endpoint (the tasks add no event to the trace):
  \<^verbatim>\<open>
  const validatedImages = await Promise.all(
    hotelImages.map(async (image) => {
      const isValid = await validateImageUrl(image.url);
      return isValid ? image : null;
    }));
  const validImages = validatedImages.filter(image => image !== null);
  if (validImages.length === 0) return res.status(404).json({...});
  res.json({ hotelImages: validImages });
  \<close>
\<close>

definition validate_task :: "world \<Rightarrow> nat \<Rightarrow> jsval \<Rightarrow> jsval io" where
  "validate_task w i img =
     io_bind (validateImageUrl w i (get_prop img ''url''))
       (\<lambda>isValid. io_return (if isValid then img else JNull))"

definition validation_pass :: "world \<Rightarrow> jsval list \<Rightarrow> unit io" where
  "validation_pass w hotelImages =
     (\<lambda>tr. io_bind
        (lift (promise_all
           (map (\<lambda>(i, img). fst (validate_task w i img tr)) (enumerate 0 hotelImages))
           (completion_order w)))
        (\<lambda>validatedImages.
           let validImages = filter (\<lambda>img. img \<noteq> JNull) validatedImages in
           if length validImages = 0
           then respond 404 (JObj
                  [(''error'', JStr ''Could not find valid hotel images''),
                   (''message'', JStr ''No valid images were found after validation. Please try a different hotel name or location.'')])
           else respond 200 (JObj [(''hotelImages'', JArr validImages)])) tr)"

section \<open>Field extraction\<close>

text \<open>The callback of \<open>page.evaluate\<close> in the hotel-info endpoint.\<close>

definition extract_hotel_info :: "element \<Rightarrow> jsval" where
  \<open>extract_hotel_info doc =
     (case querySelector doc ''section.mEKuwe'' of
        None \<Rightarrow> JNull
      | Some aboutSection \<Rightarrow>
          let description = join [CHR 0x0A, CHR 0x0A]
                (filter (\<lambda>t. t \<noteq> []) (map textContent (querySelectorAll aboutSection ''.GtAk2e'')));
              checkInTime = or_default (map_option textContent
                (querySelector aboutSection ''.b9tWsd:nth-child(1) .IIl29e'')) [];
              checkOutTime = or_default (map_option textContent
                (querySelector aboutSection ''.b9tWsd:nth-child(2) .IIl29e'')) [];
              address = or_default (map_option textContent
                (querySelector aboutSection ''.XGa8fd[aria-label*="hotel address"]'')) [];
              phone = or_default (map_option textContent
                (querySelector aboutSection ''.XGa8fd[aria-label*="call this hotel"]'')) [];
              websiteLink = querySelector aboutSection ''a[aria-label="Website"]'';
              websiteUrl = or_default (map_option href websiteLink) []
          in JObj [(''description'', JStr description),
                   (''checkInTime'', JStr checkInTime),
                   (''checkOutTime'', JStr checkOutTime),
                   (''address'', JStr address),
                   (''phone'', JStr phone),
                   (''websiteUrl'', JStr websiteUrl)])\<close>

text \<open>The images extractor: every matched \<open>img\<close> becomes a record, then \<open>slice(0, 10)\<close>.\<close>

definition image_record :: "element \<Rightarrow> jsval" where
  \<open>image_record img =
     JObj [(''url'', JStr (or_default (getAttribute img ''src'') [])),
           (''alt'', JStr (or_default (getAttribute img ''alt'') [])),
           (''caption'', JStr (or_default
              (map_option textContent (closest img ''[data-hotel-feature-id]'')) []))]\<close>

definition extract_images :: "element \<Rightarrow> jsval list" where
  \<open>extract_images doc = take 10 (map image_record (querySelectorAll doc ''img[alt^="Photo "]''))\<close>

text \<open>The suggestions extractor: \<open>slice(0, 10)\<close> of the matched elements, then one record each.\<close>

definition hotelData :: "element \<Rightarrow> jsval" where
  \<open>hotelData element =
     (let name = or_default (map_option textContent (querySelector element ''h2.BgYkof'')) [];
          price = or_default (map_option textContent (querySelector element ''.W9vOvb.nDkDDb'')) [];
          rating = or_default (map_option textContent (querySelector element ''.KFi5wf'')) [];
          reviews = or_default (map_option
             (\<lambda>el. filter (\<lambda>c. c \<noteq> CHR ''('' \<and> c \<noteq> CHR '')'') (textContent el))
             (querySelector element ''.jdzyld'')) [];
          deal = or_default (map_option textContent (querySelector element ''.PymDFe.YAMDU'')) [];
          url = or_default (Option.bind (querySelector element ''a.PVOOXe'')
             (\<lambda>el. getAttribute el ''href'')) [];
          image_src = or_default (Option.bind (querySelector element ''img.x7VXS'')
             (\<lambda>el. getAttribute el ''src'')) [];
          location = or_default (map_option textContent (querySelector element ''.uTUoTb.pWBec'')) [];
          amenities = map (\<lambda>el. JStr (or_default (Some (textContent el)) []))
             (querySelectorAll element ''.LtjZ2d.sSHqwe.ogfYpf.QYEgn'');
          description = or_default (map_option textContent (querySelector element ''.lXJaOd'')) []
      in JObj [(''name'', JStr name), (''price'', JStr price), (''rating'', JStr rating),
               (''reviews'', JStr reviews), (''deal'', JStr deal), (''url'', JStr url),
               (''image'', JStr image_src), (''location'', JStr location),
               (''amenities'', JArr amenities), (''description'', JStr description)])\<close>

definition extract_suggestions :: "element \<Rightarrow> jsval list" where
  \<open>extract_suggestions doc =
     (let hotelElements = querySelectorAll doc ''div[class*="uaTTDe"]'';
          limitedElements = take 10 hotelElements
      in map hotelData limitedElements)\<close>

text \<open>
  The prices extractor. The provider's name, logo, features, support options and member
  deals are computed by the source into locals that the result never reads; the inner
  loop under the comment "Get cancellation policy and features" fills those same locals,
  so \<open>cancellationPolicy\<close> is never assigned and \<open>roomFeatures\<close> stays empty.
\<close>

definition room_type :: "element \<Rightarrow> string" where
  \<open>room_type room =
     or_default
       (map_option (\<lambda>el. trim (textContent el))
          (Option.bind (Option.bind (at_index (children room) 0) (\<lambda>c. at_index (children c) 0))
             (\<lambda>c. querySelector c ''div'')))
       (or_default
          (map_option (\<lambda>el. trim (textContent el)) (querySelector room ''div > div > div''))
          ''Unknown Room Type'')\<close>

definition roomData :: "element \<Rightarrow> jsval" where
  \<open>roomData room =
     (let type = room_type room;
          allSpans = querySelectorAll room ''span'';
          basePrice = or_default
            (find (\<lambda>t. t \<noteq> [] \<and> js_includes t ''$'' \<and> \<not> js_includes (toLowerCase t) ''taxes'')
               (map (\<lambda>s. trim (textContent s)) allSpans)) [];
          totalPrice = or_default
            (find (\<lambda>t. t \<noteq> [] \<and> js_includes t ''$'' \<and> js_includes (toLowerCase t) ''taxes'')
               (map (\<lambda>s. trim (textContent s)) allSpans)) basePrice;
          roomFeatures = [];
          cancellationPolicy = JUndefined;
          relativeUrl = or_default (getAttribute room ''href'') [];
          url = (if startsWith relativeUrl ''http'' then relativeUrl
                 else ''https://www.google.com/travel'' @ relativeUrl)
      in JObj [(''type'', JStr type),
               (''basePrice'', JStr basePrice),
               (''totalPrice'', JStr totalPrice),
               (''url'', JStr url),
               (''cancellationPolicy'', cancellationPolicy),
               (''features'', if length roomFeatures > 0 then JArr roomFeatures else JUndefined)])\<close>

definition extract_prices :: "element \<Rightarrow> jsval list" where
  \<open>extract_prices doc =
     (case find (\<lambda>d. querySelector d ''a[href^="/aclk?"]'' \<noteq> None) (querySelectorAll doc ''div'') of
        None \<Rightarrow> []
      | Some providerSection \<Rightarrow>
          let rooms = map roomData (querySelectorAll providerSection ''a[href^="/aclk?"]'')
          in [JObj [(''rooms'', JArr rooms)]])\<close>

section \<open>The request handlers\<close>

text \<open>
  \<open>req.body\<close> is read by destructuring: a function from property names to values,
  \<open>JUndefined\<close> for a property the body does not have. The pauses of the source
  (\<open>setTimeout\<close> promises) and its logging do nothing the model records. A thrown value
  is an \<open>Error\<close> with a message and a stack, as the automation library throws them.
\<close>

type_synonym request_body = "string \<Rightarrow> jsval"

text \<open>The body of every outer \<open>catch (error)\<close>: a 500 with the error's message.\<close>

definition error_body :: "world \<Rightarrow> string \<Rightarrow> js_error \<Rightarrow> jsval" where
  "error_body w what error =
     JObj [(''error'', JStr what),
           (''message'', JStr (message error)),
           (''details'', if node_env w = Some ''development'' then JStr (stack error) else JUndefined)]"

definition internal_error :: "world \<Rightarrow> string \<Rightarrow> js_error \<Rightarrow> unit io" where
  "internal_error w what error = respond 500 (error_body w what error)"

text \<open>
  \<open>POST /api/hotel-info\<close> (the same handler in all three server files).
\<close>

definition hotel_info :: "world \<Rightarrow> request_body \<Rightarrow> unit io" where
  \<open>hotel_info w body =
     try_catch
       (let destination = body ''destination'' in
        if \<not> truthy destination
        then respond 400 (JObj
               [(''error'', JStr ''Missing required parameter: destination''),
                (''example'', JObj [(''destination'', JStr ''Hilton New York'')])])
        else
          io_then (calls w [Launch, NewPage, SetViewport])
         (io_bind (lift (encodeURIComponent w (to_string w destination))) (\<lambda>q.
          io_then (call w (Goto (''https://www.google.com/travel/search?q='' @ q)))
         (io_bind (evaluate w ''aboutTabExists''
                     (\<lambda>doc. querySelector doc ''div[aria-label="About"]'' \<noteq> None)) (\<lambda>aboutTabExists.
          io_then (if aboutTabExists
                   then call w (Click ''div[aria-label="About"]'')
                   else calls w
                     [WaitForSelector ''a[data-href^="/entity/C"][href^="/travel/search?"]'' (Some 15000),
                      Click ''a[data-href^="/entity/C"][href^="/travel/search?"]'',
                      WaitForNavigation None,
                      WaitForSelector ''div[aria-label="About"]'' (Some 15000),
                      Click ''div[aria-label="About"]''])
         (io_then (call w (WaitForSelector ''section.mEKuwe'' (Some 15000)))
         (io_bind (evaluate w ''hotelInfo'' extract_hotel_info) (\<lambda>hotelInfo.
          io_then (call w Close)
           (if \<not> truthy hotelInfo
            then respond 404 (JObj
                   [(''error'', JStr ''Could not find hotel information''),
                    (''message'', JStr ''The hotel information could not be found. Please try a different hotel name or location.'')])
            else respond 200 (JObj [(''hotelInfo'', hotelInfo)]))))))))))
       (internal_error w ''Failed to scrape hotel information'')\<close>

text \<open>
  The three ways the images and prices endpoints try to click the entity link, each
  tried when the one before threw, and the wait for the navigation whose failure is
  logged and dropped (\<open>.catch\<close>).
\<close>

definition click_entity_link :: "world \<Rightarrow> unit io" where
  \<open>click_entity_link w =
     io_then (call w (WaitForVisible ''a[data-href^="/entity/Ch"]'' 10000))
    (io_then
       (try_catch (call w (Click ''a[data-href^="/entity/Ch"]''))
          (\<lambda>error. try_catch (evaluate w ''link.click'' (\<lambda>doc. ()))
             (\<lambda>error. io_bind (query w (Query ''a[data-href^="/entity/Ch"]''))
                (\<lambda>element. if element then call w HandleClick else io_return ()))))
       (try_catch (call w (WaitForNavigation (Some 15000))) (\<lambda>error. io_return ())))\<close>

text \<open>\<open>POST /api/hotel-images\<close>.\<close>

definition hotel_images :: "world \<Rightarrow> request_body \<Rightarrow> unit io" where
  \<open>hotel_images w body =
     try_catch
       (let destination = body ''destination'' in
        if \<not> truthy destination
        then respond 400 (JObj
               [(''error'', JStr ''Missing required parameter: destination''),
                (''example'', JObj [(''destination'', JStr ''Hilton New York'')])])
        else
          io_then (calls w [Launch, NewPage, SetViewport])
         (io_bind (lift (encodeURIComponent w (to_string w destination))) (\<lambda>q.
          io_then (call w (Goto (''https://www.google.com/travel/search?q='' @ q)))
         (io_bind (evaluate w ''entityLinkExists''
                     (\<lambda>doc. querySelector doc ''a[data-href^="/entity/Ch"]'' \<noteq> None)) (\<lambda>entityLinkExists.
          io_then (if entityLinkExists then click_entity_link w else io_return ())
         (io_bind (evaluate w ''photosTabExists''
                     (\<lambda>doc. querySelector doc ''[aria-label="Photos"][id="photos"]'' \<noteq> None)) (\<lambda>photosTabExists.
          io_then (if photosTabExists
                   then call w (Click ''[aria-label="Photos"][id="photos"]'')
                   else calls w
                     [WaitForSelector ''a[data-href^="/entity/C"][href^="/travel/search?"]'' (Some 15000),
                      Click ''a[data-href^="/entity/C"][href^="/travel/search?"]'',
                      WaitForNavigation None,
                      WaitForSelector ''[aria-label="Photos"][id="photos"]'' (Some 15000),
                      Click ''[aria-label="Photos"][id="photos"]''])
         (io_then (call w (WaitForSelector ''[data-hotel-feature-id]'' (Some 15000)))
         (io_bind (evaluate w ''hotelImages'' extract_images) (\<lambda>hotelImages.
          io_then (call w Close)
           (if length hotelImages = 0
            then respond 404 (JObj
                   [(''error'', JStr ''Could not find hotel images''),
                    (''message'', JStr ''No images were found for the specified hotel. Please try a different hotel name or location.'')])
            else validation_pass w hotelImages)))))))))))
       (internal_error w ''Failed to scrape hotel images'')\<close>

text \<open>
  The prices tab of the prices endpoint: any failure of the wait or of the click is
  logged and dropped.
\<close>

definition click_prices_tab :: "world \<Rightarrow> unit io" where
  \<open>click_prices_tab w =
     try_catch
       (io_bind (query w (WaitForSelector ''[aria-label="Prices"][id="prices"]'' (Some 5000)))
          (\<lambda>pricesTab. if pricesTab then call w HandleClick else io_return ()))
       (\<lambda>error. io_return ())\<close>

text \<open>\<open>POST /api/hotel-prices\<close>.\<close>

definition hotel_prices :: "world \<Rightarrow> request_body \<Rightarrow> unit io" where
  \<open>hotel_prices w body =
     try_catch
       (let hotelName = body ''hotelName''; location = body ''location'';
            checkInDate = body ''checkInDate''; checkOutDate = body ''checkOutDate'' in
        if \<not> truthy hotelName \<or> \<not> truthy location \<or> \<not> truthy checkInDate \<or> \<not> truthy checkOutDate
        then respond 400 (JObj
               [(''error'', JStr ''Missing required parameters''),
                (''required'', JObj
                   [(''hotelName'', JStr ''Name of the hotel''),
                    (''location'', JStr ''City or location''),
                    (''checkInDate'', JStr ''Check-in date (YYYY-MM-DD)''),
                    (''checkOutDate'', JStr ''Check-out date (YYYY-MM-DD)'')])])
        else
          io_then (calls w [Launch, NewContext, SetExtraHTTPHeaders, NewPage])
         (let searchQuery = to_string w hotelName @ '' '' @ to_string w location in
          io_bind (lift (encodeURIComponent w searchQuery)) (\<lambda>q.
          io_then (calls w [Goto (''https://www.google.com/travel/search?q='' @ q), WaitForTimeout 3000])
         (io_bind (evaluate w ''entityLinkExists''
                     (\<lambda>doc. querySelector doc ''a[data-href^="/entity/Ch"]'' \<noteq> None)) (\<lambda>entityLinkExists.
          io_then (if entityLinkExists
                   then io_then (click_entity_link w)
                       (io_then (click_prices_tab w) (call w (WaitForTimeout 3000)))
                   else io_then (click_prices_tab w) (call w (WaitForTimeout 3000)))
         (io_bind (evaluate w ''priceListings'' extract_prices) (\<lambda>priceListings.
          io_then (call w Close)
           (if length priceListings = 0
            then respond 404 (JObj
                   [(''error'', JStr ''Could not find hotel prices''),
                    (''message'', JStr ''No price listings were found for the specified hotel. Please try a different hotel name or location.'')])
            else respond 200 (JObj [(''prices'', JArr priceListings)])))))))))
       (internal_error w ''Failed to fetch hotel prices'')\<close>

text \<open>
  The guest dropdown of the suggestions endpoint: \<open>page.$$\<close> gives the option handles;
  the loop reads each option's text and clicks the first that includes the wanted
  count, then stops.
\<close>

definition query_all :: "world \<Rightarrow> string \<Rightarrow> nat io" where
  "query_all w sel = (\<lambda>tr. case fails w tr (QueryAll sel) of
                  Some e \<Rightarrow> (Inl e, tr @ [Failed (QueryAll sel) e])
                | None \<Rightarrow> (Inr (handles w tr), tr @ [Done (QueryAll sel)]))"

definition read_option_text :: "world \<Rightarrow> nat \<Rightarrow> string option io" where
  "read_option_text w i = (\<lambda>tr. case fails w tr (OptionText i) of
                  Some e \<Rightarrow> (Inl e, tr @ [Failed (OptionText i) e])
                | None \<Rightarrow> (Inr (option_text w tr i), tr @ [Done (OptionText i)]))"

fun select_guests :: "world \<Rightarrow> string \<Rightarrow> nat list \<Rightarrow> unit io" where
  "select_guests w wanted [] = io_return ()"
| "select_guests w wanted (i # is) =
     io_bind (read_option_text w i) (\<lambda>t.
       if (case t of None \<Rightarrow> False | Some s \<Rightarrow> js_includes s wanted)
       then call w (OptionClick i)
       else select_guests w wanted is)"

text \<open>
  \<open>POST /api/hotel-suggestions\<close>. The handler reads the body and launches the browser;
  it has no check of the body. The wait for the suggestions container has a
  \<open>try\<close>/\<open>catch\<close> of its own, which closes the browser and answers 404.
\<close>

definition hotel_suggestions :: "world \<Rightarrow> request_body \<Rightarrow> unit io" where
  \<open>hotel_suggestions w body =
     try_catch
       (let destination = body ''destination''; checkIn = body ''checkIn'';
            checkOut = body ''checkOut''; travelers = body ''travelers'' in
          io_then (calls w [Launch, NewContext, NewPage, AddInitScript, Route,
                            Goto ''https://www.google.com'', MouseMove])
         (let formattedCheckIn = formatDate w checkIn;
              formattedCheckOut = formatDate w checkOut;
              searchQuery = ''best hotel deals in '' @ to_string w destination @ '' ''
                            @ formattedCheckIn @ '' to '' @ formattedCheckOut in
          io_then (call w (WaitForSelector ''textarea[name="q"]'' None))
         (io_then (calls w (map TypeChar searchQuery))
         (io_then (calls w [Press ''Enter'',
                            WaitForSelector ''div[jsname="FtsEs"]'' (Some 30000),
                            Click ''div[jsname="FtsEs"]'',
                            WaitForSelector ''ul[jsname="xl07Ob"][aria-live="polite"]'' (Some 10000)])
         (io_bind (query_all w ''li[role="menuitemradio"]'') (\<lambda>guestOptions.
          io_then (select_guests w (to_string w travelers @ '' guests'') [0..<guestOptions])
         (io_then (call w (WaitForTimeout 3000))
         (io_bind (try_catch
                     (io_then (call w (WaitForSelector ''div[class*="uaTTDe"]'' (Some 30000)))
                        (io_return True))
                     (\<lambda>error. io_return False)) (\<lambda>container_found.
          if \<not> container_found
          then io_then (call w Close)
                 (respond 404 (JObj
                    [(''error'', JStr ''No hotel suggestions found. The search might have been blocked.'')]))
          else
            io_bind (evaluate w ''hotelSuggestions'' extract_suggestions) (\<lambda>hotelSuggestions.
            io_then (call w Close)
             (if length hotelSuggestions = 0
              then respond 404 (JObj [(''error'', JStr ''No hotel suggestions found'')])
              else respond 200 (JObj [(''hotelSuggestions'', JArr hotelSuggestions)]))))))))))))
       (internal_error w ''Failed to scrape hotel deals'')\<close>

section \<open>Example pages and worlds\<close>

text \<open>
  \<open>blank\<close> is an element with no text, attribute, child or match. In the world \<open>quiet\<close>
  no call fails, every page is \<open>blank\<close> and every HEAD request answers a JPEG.
\<close>

definition blank :: element where
  "blank = Element [] [] [] [] (\<lambda>sel. []) (\<lambda>sel. None)"

definition quiet :: world where
  "quiet = \<lparr> fails = (\<lambda>tr c. None),
             document = (\<lambda>tr. blank),
             found = (\<lambda>tr c. True),
             handles = (\<lambda>tr. 0),
             option_text = (\<lambda>tr i. None),
             fetch_head = (\<lambda>i url. Response 200 (Some ''image/jpeg'')),
             completion_order = [],
             node_env = None,
             to_string = (\<lambda>v. case v of JStr s \<Rightarrow> s | _ \<Rightarrow> ''undefined''),
             encodeURIComponent = (\<lambda>s. Inr s),
             formatDate = (\<lambda>v. ''Invalid Date'') \<rparr>"

text \<open>A request body with the one property \<open>destination\<close>, and the empty body.\<close>

definition with_destination :: "string \<Rightarrow> request_body" where
  "with_destination d = (\<lambda>k. if k = ''destination'' then JStr d else JUndefined)"

definition empty_body :: request_body where
  "empty_body = (\<lambda>k. JUndefined)"

definition timeout_error :: js_error where
  "timeout_error = Error ''Waiting for selector failed: timeout exceeded'' ''TimeoutError''"

text \<open>The world \<open>quiet\<close>, but the call \<open>c\<close> throws a timeout whenever it is made.\<close>

definition failing_at :: "op \<Rightarrow> world" where
  "failing_at c = quiet \<lparr> fails := (\<lambda>tr c'. if c' = c then Some timeout_error else None) \<rparr>"

text \<open>The world \<open>quiet\<close>, but every HEAD request is rejected (the network is down).\<close>

definition offline :: world where
  "offline = quiet \<lparr> fetch_head := (\<lambda>i url. Rejected (Error ''getaddrinfo ENOTFOUND'' ''FetchError'')) \<rparr>"

text \<open>The world \<open>quiet\<close>, but every page is \<open>d\<close>.\<close>

definition showing :: "element \<Rightarrow> world" where
  "showing d = quiet \<lparr> document := (\<lambda>tr. d) \<rparr>"

text \<open>A body in which every property is the string \<open>x\<close>.\<close>

definition full_body :: request_body where
  "full_body = (\<lambda>k. JStr ''x'')"

text \<open>
  Pages: a gallery of photos with the given sources; a results page with \<open>n\<close> hotel
  elements; a prices page whose one provider section holds one offer link with no
  room-type element and no price; a page whose About section is empty.
\<close>

definition photo :: "string \<Rightarrow> element" where
  "photo src = Element [] [(''src'', src), (''alt'', ''Photo 1'')] [] [] (\<lambda>sel. []) (\<lambda>sel. None)"

definition gallery :: "string list \<Rightarrow> element" where
  \<open>gallery srcs = Element [] [] [] []
     (\<lambda>sel. if sel = ''img[alt^="Photo "]'' then map photo srcs else []) (\<lambda>sel. None)\<close>

definition results_page :: "nat \<Rightarrow> element" where
  \<open>results_page n = Element [] [] [] []
     (\<lambda>sel. if sel = ''div[class*="uaTTDe"]'' then replicate n blank else []) (\<lambda>sel. None)\<close>

definition offer :: element where
  "offer = Element [] [(''href'', ''/aclk?sa=l'')] [] [] (\<lambda>sel. []) (\<lambda>sel. None)"

definition provider :: element where
  \<open>provider = Element [] [] [] []
     (\<lambda>sel. if sel = ''a[href^="/aclk?"]'' then [offer] else []) (\<lambda>sel. None)\<close>

definition prices_page :: element where
  "prices_page = Element [] [] [] [] (\<lambda>sel. if sel = ''div'' then [provider] else []) (\<lambda>sel. None)"

definition about_page :: element where
  "about_page = Element [] [] [] []
     (\<lambda>sel. if sel = ''section.mEKuwe'' then [blank] else []) (\<lambda>sel. None)"

text \<open>
  The world \<open>flaky\<close>: the second HEAD request answers 404 with an HTML body, the others
  answer a JPEG, and the requests settle in the order third, first, second. The world
  \<open>barren\<close>: every page is \<open>blank\<close> and the wait for a landmark always times out.
\<close>

definition flaky :: world where
  "flaky = quiet \<lparr> fetch_head := (\<lambda>i url. if i = 1 then Response 404 (Some ''text/html'')
                                          else Response 200 (Some ''image/jpeg'')),
                    completion_order := [2, 0, 1] \<rparr>"

definition barren :: world where
  \<open>barren = quiet \<lparr> fails := (\<lambda>tr c.
       if c = WaitForSelector ''section.mEKuwe'' (Some 15000)
          \<or> c = WaitForSelector ''[data-hotel-feature-id]'' (Some 15000)
          \<or> c = WaitForSelector ''div[class*="uaTTDe"]'' (Some 30000)
       then Some timeout_error else None) \<rparr>\<close>

section \<open>The acceptance criterion of the specification\<close>

text \<open>
  The specification's words for image validation: the HEAD request succeeds (the
  response is ok) and its content type is present and begins with \<open>image/\<close>.
  \<open>kept_images\<close> are the candidates whose own request meets the criterion, in order.
\<close>

definition accepted :: "fetch_result \<Rightarrow> bool" where
  "accepted r = (case r of
       Rejected e \<Rightarrow> False
     | Response st None \<Rightarrow> False
     | Response st (Some ct) \<Rightarrow> response_ok st \<and> startsWith ct ''image/'')"

definition kept_images :: "world \<Rightarrow> jsval list \<Rightarrow> jsval list" where
  "kept_images w candidates =
     map snd (filter (\<lambda>(i, img). accepted (fetch_head w i (get_prop img ''url'')))
                (enumerate 0 candidates))"

section \<open>What each handler answers\<close>


text \<open>
  The browser is closed before a response goes out: scanning the trace, no response is
  sent while a launched browser has not been closed.
\<close>

fun closed_before_responding :: "bool \<Rightarrow> event list \<Rightarrow> bool" where
  "closed_before_responding running [] = True"
| "closed_before_responding running (Done Launch # evs) = closed_before_responding True evs"
| "closed_before_responding running (Done Close # evs) = closed_before_responding False evs"
| "closed_before_responding running (Respond s b # evs) =
     (\<not> running \<and> closed_before_responding running evs)"
| "closed_before_responding running (ev # evs) = closed_before_responding running evs"

text \<open>
  The responses each handler can give, with what is known of the world when it gives
  them. They are proved of the handlers below (\<open>hotel_info_outcome\<close> and its siblings).
\<close>

definition info_outcome :: "world \<Rightarrow> request_body \<Rightarrow> nat \<Rightarrow> jsval \<Rightarrow> bool" where
  \<open>info_outcome w body s b =
     (if \<not> truthy (body ''destination'')
      then s = 400 \<and> wire_keys b = [''error'', ''example'']
      else (s = 500 \<and> (\<exists>e. b = error_body w ''Failed to scrape hotel information'' e))
         \<or> (\<exists>tr tr'. fails w tr (WaitForSelector ''section.mEKuwe'' (Some 15000)) = None
               \<and> (if truthy (extract_hotel_info (document w tr'))
                    then s = 200 \<and> b = JObj [(''hotelInfo'', extract_hotel_info (document w tr'))]
                    else s = 404 \<and> wire_keys b = [''error'', ''message''])))\<close>

definition images_outcome :: "world \<Rightarrow> request_body \<Rightarrow> nat \<Rightarrow> jsval \<Rightarrow> bool" where
  \<open>images_outcome w body s b =
     (if \<not> truthy (body ''destination'')
      then s = 400 \<and> wire_keys b = [''error'', ''example'']
      else (s = 500 \<and> (\<exists>e. b = error_body w ''Failed to scrape hotel images'' e))
         \<or> (\<exists>tr tr'. fails w tr (WaitForSelector ''[data-hotel-feature-id]'' (Some 15000)) = None
               \<and> (if extract_images (document w tr') = []
                       \<or> kept_images w (extract_images (document w tr')) = []
                    then s = 404 \<and> wire_keys b = [''error'', ''message'']
                    else s = 200 \<and> b = JObj [(''hotelImages'',
                           JArr (kept_images w (extract_images (document w tr'))))])))\<close>

definition prices_outcome :: "world \<Rightarrow> request_body \<Rightarrow> nat \<Rightarrow> jsval \<Rightarrow> bool" where
  \<open>prices_outcome w body s b =
     (if \<not> truthy (body ''hotelName'') \<or> \<not> truthy (body ''location'')
         \<or> \<not> truthy (body ''checkInDate'') \<or> \<not> truthy (body ''checkOutDate'')
      then s = 400 \<and> wire_keys b = [''error'', ''required'']
      else (s = 500 \<and> (\<exists>e. b = error_body w ''Failed to fetch hotel prices'' e))
         \<or> (\<exists>tr. if extract_prices (document w tr) = []
                    then s = 404 \<and> wire_keys b = [''error'', ''message'']
                    else s = 200 \<and> b = JObj [(''prices'', JArr (extract_prices (document w tr)))]))\<close>

definition suggestions_outcome :: "world \<Rightarrow> nat \<Rightarrow> jsval \<Rightarrow> bool" where
  \<open>suggestions_outcome w s b =
     ((s = 500 \<and> (\<exists>e. b = error_body w ''Failed to scrape hotel deals'' e))
      \<or> (s = 404 \<and> wire_keys b = [''error'']
          \<and> (\<exists>tr. fails w tr (WaitForSelector ''div[class*="uaTTDe"]'' (Some 30000)) \<noteq> None))
      \<or> (\<exists>tr tr'. fails w tr (WaitForSelector ''div[class*="uaTTDe"]'' (Some 30000)) = None
            \<and> (if extract_suggestions (document w tr') = []
                 then s = 404 \<and> wire_keys b = [''error'']
                 else s = 200 \<and> b = JObj [(''hotelSuggestions'',
                        JArr (extract_suggestions (document w tr')))])))\<close>

section \<open>What a computation answers\<close>

text \<open>
  \<open>silent m\<close>: the computation sends no response. \<open>sends P m\<close>: when it returns it has
  sent exactly one response, and \<open>P\<close> holds of its status and body; when it throws it
  has sent none. \<open>answers P m\<close>: the whole run sends exactly one response, and \<open>P\<close>
  holds of it.
\<close>

definition silent :: "'a io \<Rightarrow> bool" where
  "silent m = (\<forall>tr. responses (snd (m tr)) = responses tr)"

definition sends :: "(nat \<Rightarrow> jsval \<Rightarrow> bool) \<Rightarrow> 'a io \<Rightarrow> bool" where
  "sends P m = (\<forall>tr. case m tr of
       (Inl e, tr') \<Rightarrow> responses tr' = responses tr
     | (Inr x, tr') \<Rightarrow> (\<exists>s b. responses tr' = responses tr @ [(s, b)] \<and> P s b))"

definition answers :: "(nat \<Rightarrow> jsval \<Rightarrow> bool) \<Rightarrow> unit io \<Rightarrow> bool" where
  "answers P m = (\<exists>s b. responses (run m) = [(s, b)] \<and> P s b)"

section \<open>Rules for the computations\<close>

lemma responses_append: "responses (xs @ ys) = responses xs @ responses ys"
  by (induction xs rule: responses.induct) simp_all

lemma silent_return: "silent (io_return x)"
  by (simp add: silent_def io_return_def)

lemma silent_lift: "silent (lift r)"
  by (simp add: silent_def lift_def)

lemma silent_call: "silent (call w c)"
  by (simp add: silent_def call_def responses_append split: option.splits)

lemma silent_query: "silent (query w c)"
  by (simp add: silent_def query_def responses_append split: option.splits)

lemma silent_query_all: "silent (query_all w sel)"
  by (simp add: silent_def query_all_def responses_append split: option.splits)

lemma silent_read_option_text: "silent (read_option_text w i)"
  by (simp add: silent_def read_option_text_def responses_append split: option.splits)

lemma silent_evaluate: "silent (evaluate w label f)"
  by (simp add: silent_def evaluate_def responses_append split: option.splits)

lemma silent_bind:
  assumes "silent m" and "\<And>x. silent (k x)"
  shows "silent (io_bind m k)"
proof -
  have "responses (snd (io_bind m k tr)) = responses tr" for tr
  proof (cases "m tr")
    case (Pair r tr')
    have r1: "responses tr' = responses tr"
      using assms(1) Pair by (auto simp: silent_def dest: spec [where x = tr])
    show ?thesis
    proof (cases r)
      case (Inl e)
      then show ?thesis using Pair r1 by (simp add: io_bind_def)
    next
      case (Inr x)
      have "responses (snd (k x tr')) = responses tr'"
        using assms(2) [of x] by (simp add: silent_def)
      then show ?thesis using Pair Inr r1 by (simp add: io_bind_def)
    qed
  qed
  then show ?thesis by (simp add: silent_def)
qed

lemma silent_then: "silent m \<Longrightarrow> silent k \<Longrightarrow> silent (io_then m k)"
  by (simp add: io_then_def silent_bind)

lemma silent_try_catch:
  assumes "silent m" and "\<And>e. silent (h e)"
  shows "silent (try_catch m h)"
proof -
  have "responses (snd (try_catch m h tr)) = responses tr" for tr
  proof (cases "m tr")
    case (Pair r tr')
    have r1: "responses tr' = responses tr"
      using assms(1) Pair by (auto simp: silent_def dest: spec [where x = tr])
    show ?thesis
    proof (cases r)
      case (Inl e)
      have "responses (snd (h e tr')) = responses tr'"
        using assms(2) [of e] by (simp add: silent_def)
      then show ?thesis using Pair Inl r1 by (simp add: try_catch_def)
    next
      case (Inr x)
      then show ?thesis using Pair r1 by (simp add: try_catch_def)
    qed
  qed
  then show ?thesis by (simp add: silent_def)
qed

lemma silent_if: "silent a \<Longrightarrow> silent b \<Longrightarrow> silent (if c then a else b)"
  by simp

lemma silent_calls: "silent (calls w cs)"
  by (induction cs) (simp_all add: silent_return silent_then silent_call)

lemma silent_select_guests: "silent (select_guests w wanted is)"
  by (induction "is") (auto intro!: silent_return silent_bind silent_read_option_text silent_call)

lemmas silent_intros = silent_return silent_lift silent_call silent_query silent_query_all
  silent_read_option_text silent_evaluate silent_calls silent_select_guests
  silent_bind silent_then silent_try_catch silent_if

lemma silent_click_entity_link: "silent (click_entity_link w)"
  unfolding click_entity_link_def by (intro silent_intros)

lemma silent_click_prices_tab: "silent (click_prices_tab w)"
  unfolding click_prices_tab_def by (intro silent_intros)

lemma sends_respond: "P s b \<Longrightarrow> sends P (respond s b)"
  by (simp add: sends_def respond_def responses_append)

lemma sends_bind:
  assumes "silent m" and "\<And>x tr. fst (m tr) = Inr x \<Longrightarrow> sends P (k x)"
  shows "sends P (io_bind m k)"
proof -
  have "case io_bind m k tr of
          (Inl e, tr') \<Rightarrow> responses tr' = responses tr
        | (Inr x, tr') \<Rightarrow> (\<exists>s b. responses tr' = responses tr @ [(s, b)] \<and> P s b)" for tr
  proof (cases "m tr")
    case (Pair r tr')
    have r1: "responses tr' = responses tr"
      using assms(1) Pair by (auto simp: silent_def dest: spec [where x = tr])
    show ?thesis
    proof (cases r)
      case (Inl e)
      then show ?thesis using Pair r1 by (simp add: io_bind_def)
    next
      case (Inr x)
      have "sends P (k x)" using assms(2) [of tr x] Pair Inr by simp
      then have "case k x tr' of
          (Inl e, tr'') \<Rightarrow> responses tr'' = responses tr'
        | (Inr y, tr'') \<Rightarrow> (\<exists>s b. responses tr'' = responses tr' @ [(s, b)] \<and> P s b)"
        by (simp add: sends_def)
      then show ?thesis using Pair Inr r1
        by (auto simp: io_bind_def split: prod.splits sum.splits)
    qed
  qed
  then show ?thesis by (simp add: sends_def)
qed

lemma sends_bind_silent: "silent m \<Longrightarrow> (\<And>x. sends P (k x)) \<Longrightarrow> sends P (io_bind m k)"
  by (rule sends_bind)

lemma sends_then_silent: "silent m \<Longrightarrow> sends P k \<Longrightarrow> sends P (io_then m k)"
  unfolding io_then_def by (rule sends_bind)

text \<open>What the continuation knows: the value of an evaluation is the callback's on some
  page; after a call, the call did not fail.\<close>

lemma sends_evaluate:
  assumes "\<And>tr. sends P (k (f (document w tr)))"
  shows "sends P (io_bind (evaluate w label f) k)"
proof (rule sends_bind)
  show "silent (evaluate w label f)" by (rule silent_evaluate)
next
  fix x tr assume "fst (evaluate w label f tr) = Inr x"
  then have "x = f (document w tr)" by (simp add: evaluate_def split: option.splits)
  then show "sends P (k x)" using assms by simp
qed

lemma sends_call:
  assumes "\<And>tr. fails w tr c = None \<Longrightarrow> sends P k"
  shows "sends P (io_then (call w c) k)"
  unfolding io_then_def
proof (rule sends_bind)
  show "silent (call w c)" by (rule silent_call)
next
  fix x tr assume "fst (call w c tr) = Inr x"
  then have "fails w tr c = None" by (simp add: call_def split: option.splits)
  then show "sends P k" using assms by simp
qed

lemma sends_caught_call:
  assumes "\<And>tr. sends P (k (fails w tr c = None))"
  shows "sends P (io_bind (try_catch (io_then (call w c) (io_return True))
                              (\<lambda>error. io_return False)) k)"
proof (rule sends_bind)
  show "silent (try_catch (io_then (call w c) (io_return True)) (\<lambda>error. io_return False))"
    by (intro silent_intros)
next
  fix x tr
  assume "fst (try_catch (io_then (call w c) (io_return True)) (\<lambda>error. io_return False) tr) = Inr x"
  then have "x = (fails w tr c = None)"
    by (auto simp: try_catch_def io_then_def io_bind_def call_def io_return_def
          split: option.splits)
  then show "sends P (k x)" using assms by simp
qed

lemma sends_if: "(c \<Longrightarrow> sends P a) \<Longrightarrow> (\<not> c \<Longrightarrow> sends P b) \<Longrightarrow> sends P (if c then a else b)"
  by simp

lemma answers_try_catch:
  assumes "sends P m" and "\<And>e tr. fst (m tr) = Inl e \<Longrightarrow> P 500 (b e)"
  shows "answers P (try_catch m (\<lambda>e. respond 500 (b e)))"
proof (cases "m []")
  case (Pair r tr')
  have m: "case m [] of
          (Inl e, tr') \<Rightarrow> responses tr' = responses []
        | (Inr x, tr') \<Rightarrow> (\<exists>s b. responses tr' = responses [] @ [(s, b)] \<and> P s b)"
    using assms(1) by (simp add: sends_def)
  show ?thesis
  proof (cases r)
    case (Inl e)
    then have "P 500 (b e)" using assms(2) [of "[]" e] Pair by simp
    then show ?thesis using Pair Inl m
      by (simp add: answers_def run_def try_catch_def respond_def responses_append)
  next
    case (Inr x)
    then show ?thesis using Pair m
      by (simp add: answers_def run_def try_catch_def)
  qed
qed

lemma sends_weaken:
  assumes "sends P m" and "\<And>s b. P s b \<Longrightarrow> Q s b"
  shows "sends Q m"
proof -
  have "case m tr of
          (Inl e, tr') \<Rightarrow> responses tr' = responses tr
        | (Inr x, tr') \<Rightarrow> (\<exists>s b. responses tr' = responses tr @ [(s, b)] \<and> Q s b)" for tr
  proof (cases "m tr")
    case (Pair r tr')
    have "case m tr of
          (Inl e, tr') \<Rightarrow> responses tr' = responses tr
        | (Inr x, tr') \<Rightarrow> (\<exists>s b. responses tr' = responses tr @ [(s, b)] \<and> P s b)"
      using assms(1) by (simp add: sends_def)
    then show ?thesis using Pair assms(2) by (cases r) auto
  qed
  then show ?thesis by (simp add: sends_def)
qed

lemmas sends_intros = sends_if sends_respond sends_evaluate sends_call sends_caught_call
  sends_then_silent sends_bind_silent silent_intros silent_click_entity_link
  silent_click_prices_tab

section \<open>Image validation: the pass computes the kept images\<close>

lemma validateImageUrl_accepted:
  "validateImageUrl w i url tr = (Inr (accepted (fetch_head w i url)), tr)"
  by (cases "fetch_head w i url")
     (auto simp: validateImageUrl_def fetch_def try_catch_def io_bind_def io_throw_def
        io_return_def accepted_def split: option.splits)

lemma validate_task_result:
  "fst (validate_task w i img tr)
     = Inr (if accepted (fetch_head w i (get_prop img ''url'')) then img else JNull)"
  by (simp add: validate_task_def io_bind_def validateImageUrl_accepted io_return_def)

lemma settle_untouched:
  "settle rs js slots = Inr out \<Longrightarrow> j \<notin> set js \<Longrightarrow> j < length slots \<Longrightarrow> out ! j = slots ! j"
  by (induction js arbitrary: slots) (auto split: sum.splits)

lemma settle_length: "settle rs js slots = Inr out \<Longrightarrow> length out = length slots"
  by (induction js arbitrary: slots) (auto split: sum.splits)

lemma settle_filled:
  "settle rs js slots = Inr out \<Longrightarrow> distinct js \<Longrightarrow> j \<in> set js \<Longrightarrow> j < length slots
     \<Longrightarrow> Inr (the (out ! j)) = rs ! j"
proof (induction js arbitrary: slots)
  case Nil
  then show ?case by simp
next
  case (Cons i js)
  from Cons.prems(1) obtain v where v: "rs ! i = Inr v"
    and rest: "settle rs js (slots[i := Some v]) = Inr out"
    by (auto split: sum.splits)
  show ?case
  proof (cases "j = i")
    case True
    then have "j \<notin> set js" using Cons.prems(2) by simp
    then have "out ! j = (slots[i := Some v]) ! j"
      using settle_untouched [OF rest] Cons.prems(4) by simp
    then show ?thesis using True v Cons.prems(4) by simp
  next
    case False
    then have "j \<in> set js" using Cons.prems(3) by simp
    then show ?thesis using Cons.IH [OF rest] Cons.prems(2,4) by simp
  qed
qed

lemma settle_ok:
  "\<forall>i \<in> set js. \<exists>v. rs ! i = Inr v \<Longrightarrow> \<exists>out. settle rs js slots = Inr out"
  by (induction js arbitrary: slots) auto

lemma settle_order_set: "set (settle_order n order) = {0..<n}"
  by (auto simp: settle_order_def)

lemma settle_order_distinct: "distinct (settle_order n order)"
  by (simp add: settle_order_def)

text \<open>When no task rejects, \<open>Promise.all\<close> gives the values in the order of the tasks,
  whatever the order in which they settle.\<close>

lemma promise_all_values:
  assumes "rs = map Inr vs"
  shows "promise_all rs order = Inr vs"
proof -
  let ?n = "length rs"
  have "\<forall>i \<in> set (settle_order ?n order). \<exists>v. rs ! i = Inr v"
    using assms by (simp add: settle_order_set)
  then obtain out where out: "settle rs (settle_order ?n order) (replicate ?n None) = Inr out"
    using settle_ok by blast
  have len: "length out = ?n" using settle_length [OF out] by simp
  have "map the out = vs"
  proof (rule nth_equalityI)
    show "length (map the out) = length vs" using len assms by simp
  next
    fix j assume "j < length (map the out)"
    then have j: "j < ?n" using len by simp
    then have "Inr (the (out ! j)) = rs ! j"
      using settle_filled [OF out settle_order_distinct, of j] by (simp add: settle_order_set)
    then show "map the out ! j = vs ! j" using j len assms by simp
  qed
  then show ?thesis using out by (simp add: promise_all_def)
qed

lemma validated_images:
  "map (\<lambda>(i, img). fst (validate_task w i img tr)) (enumerate 0 cands)
   = map Inr (map (\<lambda>(i, img). if accepted (fetch_head w i (get_prop img ''url'')) then img else JNull)
               (enumerate 0 cands))"
  by (simp add: validate_task_result split_def)

lemma filter_kept:
  "list_all (\<lambda>c. c \<noteq> JNull) (map snd xs) \<Longrightarrow>
   filter (\<lambda>img. img \<noteq> JNull) (map (\<lambda>(i, img). if A i img then img else JNull) xs)
   = map snd (filter (\<lambda>(i, img). A i img) xs)"
  by (induction xs) auto

lemma validation_pass_result:
  assumes "list_all (\<lambda>c. c \<noteq> JNull) candidates"
  shows "validation_pass w candidates tr =
     (Inr (), tr @ [if kept_images w candidates = []
         then Respond 404 (JObj
                  [(''error'', JStr ''Could not find valid hotel images''),
                   (''message'', JStr ''No valid images were found after validation. Please try a different hotel name or location.'')])
         else Respond 200 (JObj [(''hotelImages'', JArr (kept_images w candidates))])])"
proof -
  have nn: "list_all (\<lambda>c. c \<noteq> JNull) (map snd (enumerate 0 candidates))"
    using assms by simp
  show ?thesis
    unfolding validation_pass_def validated_images promise_all_values [OF refl]
    by (simp add: io_bind_def lift_def Let_def filter_kept [OF nn] kept_images_def respond_def)
qed

lemma extract_images_objects: "list_all (\<lambda>c. c \<noteq> JNull) (extract_images doc)"
  by (auto simp: extract_images_def image_record_def list_all_iff dest!: in_set_takeD)

lemma sends_validation_pass:
  assumes "list_all (\<lambda>c. c \<noteq> JNull) candidates"
    and "\<And>b. kept_images w candidates = [] \<Longrightarrow> wire_keys b = [''error'', ''message''] \<Longrightarrow> P 404 b"
    and "kept_images w candidates \<noteq> [] \<Longrightarrow> P 200 (JObj [(''hotelImages'', JArr (kept_images w candidates))])"
  shows "sends P (validation_pass w candidates)"
  using assms(2,3) by (auto simp: sends_def validation_pass_result [OF assms(1)] responses_append)

lemma kept_images_Nil: "kept_images w [] = []"
  by (simp add: kept_images_def)

section \<open>The responses of the handlers\<close>

lemmas io_defs = run_def try_catch_def respond_def io_then_def io_bind_def call_def lift_def
  evaluate_def internal_error_def error_body_def io_return_def io_throw_def query_def
  query_all_def read_option_text_def

lemmas example_defs = quiet_def failing_at_def with_destination_def empty_body_def blank_def
  timeout_error_def offline_def showing_def full_body_def flaky_def barren_def

lemmas page_defs = photo_def gallery_def results_page_def offer_def provider_def prices_page_def
  about_page_def

lemma hotel_info_outcome: "answers (info_outcome w body) (hotel_info w body)"
  unfolding hotel_info_def internal_error_def Let_def
  apply (rule answers_try_catch)
  subgoal
    by (intro sends_intros)
       (auto simp: info_outcome_def)
  subgoal
    by (auto simp: info_outcome_def respond_def split: if_splits)
  done


lemma hotel_images_outcome: "answers (images_outcome w body) (hotel_images w body)"
  unfolding hotel_images_def internal_error_def Let_def
  apply (rule answers_try_catch)
  subgoal
    by (intro sends_intros sends_validation_pass)
       (auto simp: images_outcome_def extract_images_objects kept_images_Nil
             )
  subgoal
    by (auto simp: images_outcome_def respond_def split: if_splits)
  done

lemma hotel_prices_outcome: "answers (prices_outcome w body) (hotel_prices w body)"
  unfolding hotel_prices_def internal_error_def Let_def
  apply (rule answers_try_catch)
  subgoal
    by (intro sends_intros)
       (auto simp: prices_outcome_def)
  subgoal
    by (auto simp: prices_outcome_def respond_def split: if_splits)
  done

lemma hotel_suggestions_outcome: "answers (suggestions_outcome w) (hotel_suggestions w body)"
  unfolding hotel_suggestions_def internal_error_def Let_def
  apply (rule answers_try_catch)
  subgoal
    by (intro sends_intros)
       (auto simp: suggestions_outcome_def)
  subgoal
    by (auto simp: suggestions_outcome_def)
  done

section \<open>Facts about the extractors and the bodies\<close>








lemma querySelector_None: "(querySelector e sel = None) = (querySelectorAll e sel = [])"
  by (simp add: querySelector_def split: list.splits)

lemma extract_prices_empty_iff:
  \<open>(extract_prices doc = [])
   = (\<forall>d \<in> set (querySelectorAll doc ''div''). querySelectorAll d ''a[href^="/aclk?"]'' = [])\<close>
proof -
  have \<open>(extract_prices doc = [])
      = (find (\<lambda>d. querySelector d ''a[href^="/aclk?"]'' \<noteq> None) (querySelectorAll doc ''div'') = None)\<close>
    by (simp add: extract_prices_def Let_def split: option.splits)
  then show ?thesis
    by (auto simp: find_None_iff querySelector_None)
qed

lemma extract_prices_shape:
  \<open>extract_prices doc = []
   \<or> (\<exists>providerSection.
        find (\<lambda>d. querySelector d ''a[href^="/aclk?"]'' \<noteq> None) (querySelectorAll doc ''div'')
          = Some providerSection
        \<and> querySelectorAll providerSection ''a[href^="/aclk?"]'' \<noteq> []
        \<and> extract_prices doc = [JObj [(''rooms'',
             JArr (map roomData (querySelectorAll providerSection ''a[href^="/aclk?"]'')))]])\<close>
proof (cases \<open>find (\<lambda>d. querySelector d ''a[href^="/aclk?"]'' \<noteq> None) (querySelectorAll doc ''div'')\<close>)
  case None
  then show ?thesis by (simp add: extract_prices_def)
next
  case (Some providerSection)
  then have \<open>querySelector providerSection ''a[href^="/aclk?"]'' \<noteq> None\<close>
    by (auto simp: find_Some_iff)
  then have \<open>querySelectorAll providerSection ''a[href^="/aclk?"]'' \<noteq> []\<close>
    by (simp add: querySelector_None)
  then show ?thesis using Some by (simp add: extract_prices_def Let_def)
qed

lemma prices_rooms_never_empty:
  "answers (\<lambda>s b. s = 200 \<longrightarrow>
      (\<exists>rooms. b = JObj [(''prices'', JArr [JObj [(''rooms'', JArr rooms)]])] \<and> rooms \<noteq> []))
     (hotel_prices w body)"
proof -
  obtain s b where sb: "responses (run (hotel_prices w body)) = [(s, b)]"
      "prices_outcome w body s b"
    using hotel_prices_outcome [of w body] by (auto simp: answers_def)
  have "s = 200 \<longrightarrow>
      (\<exists>rooms. b = JObj [(''prices'', JArr [JObj [(''rooms'', JArr rooms)]])] \<and> rooms \<noteq> [])"
  proof
    assume "s = 200"
    then obtain tr where tr: "extract_prices (document w tr) \<noteq> []"
        "b = JObj [(''prices'', JArr (extract_prices (document w tr)))]"
      using sb(2) by (auto simp: prices_outcome_def split: if_splits)
    then show "\<exists>rooms. b = JObj [(''prices'', JArr [JObj [(''rooms'', JArr rooms)]])] \<and> rooms \<noteq> []"
      using extract_prices_shape [of "document w tr"] by auto
  qed
  then show ?thesis using sb(1) by (auto simp: answers_def)
qed

lemma has_field_error_body:
  "has_field (error_body w what e) ''error'' \<and> has_field (error_body w what e) ''message''"
  by (simp add: has_field_def error_body_def)

section \<open>The claims\<close>

subsection \<open>C1: the browser is closed before the response, also on the error path\<close>

text \<open>C1 fails on the code. The outer \<open>catch\<close> of every handler answers 500 and closes
  nothing (\<open>browser\<close> is not even in its scope), while the \<open>catch\<close> around the wait for the
  suggestions container does close the browser before answering. In hotel-info, when the
  wait for the About section times out, the browser has been launched, is never closed, and
  the 500 goes out; in hotel-suggestions, when the wait for the guest selector times out,
  the same; when the wait for the suggestions container times out, the browser is closed
  first.\<close>

theorem error_path_leaves_browser_open:
  \<open>run (hotel_info (failing_at (WaitForSelector ''section.mEKuwe'' (Some 15000)))
          (with_destination ''Hilton New York''))
   = [Done Launch, Done NewPage, Done SetViewport,
      Done (Goto ''https://www.google.com/travel/search?q=Hilton New York''),
      Done (Evaluate ''aboutTabExists''),
      Done (WaitForSelector ''a[data-href^="/entity/C"][href^="/travel/search?"]'' (Some 15000)),
      Done (Click ''a[data-href^="/entity/C"][href^="/travel/search?"]''),
      Done (WaitForNavigation None),
      Done (WaitForSelector ''div[aria-label="About"]'' (Some 15000)),
      Done (Click ''div[aria-label="About"]''),
      Failed (WaitForSelector ''section.mEKuwe'' (Some 15000)) timeout_error,
      Respond 500 (JObj [(''error'', JStr ''Failed to scrape hotel information''),
                         (''message'', JStr (message timeout_error)),
                         (''details'', JUndefined)])]
   \<and> \<not> closed_before_responding False
        (run (hotel_info (failing_at (WaitForSelector ''section.mEKuwe'' (Some 15000)))
          (with_destination ''Hilton New York'')))
   \<and> \<not> closed_before_responding False
        (run (hotel_suggestions (failing_at (WaitForSelector ''div[jsname="FtsEs"]'' (Some 30000)))
          full_body))
   \<and> closed_before_responding False
        (run (hotel_suggestions (failing_at (WaitForSelector ''div[class*="uaTTDe"]'' (Some 30000)))
          full_body))\<close>
  by (simp add: hotel_info_def hotel_suggestions_def io_defs example_defs querySelector_def)

subsection \<open>C2: an image is returned exactly when its own HEAD request is accepted\<close>

text \<open>C2: for candidates that are image records (none is \<open>null\<close>), the validation pass
  answers with exactly the candidates whose own HEAD request is ok with a content type that
  begins with \<open>image/\<close>, in order; a rejected request, another status or another type
  leaves out that one image only; when none is left the answer is 404; the order in
  which the concurrent requests settle changes nothing; and the list of a 200 response of
  hotel-images is the kept images of the candidates extracted from the page.\<close>

theorem validation_keeps_exactly_accepted:
  "list_all (\<lambda>c. c \<noteq> JNull) candidates \<Longrightarrow>
     (\<exists>r. validation_pass w candidates tr = (Inr (), tr @ [r])
        \<and> (if kept_images w candidates = []
            then \<exists>b. r = Respond 404 b \<and> wire_keys b = [''error'', ''message'']
            else r = Respond 200 (JObj [(''hotelImages'', JArr (kept_images w candidates))])))
     \<and> validation_pass (w \<lparr> completion_order := order \<rparr>) candidates tr
         = validation_pass w candidates tr
     \<and> kept_images w candidates
         = map snd (filter (\<lambda>(i, img). accepted (fetch_head w i (get_prop img ''url'')))
                      (enumerate 0 candidates))
     \<and> (\<forall>i < length candidates.
           validateImageUrl w i (get_prop (candidates ! i) ''url'') tr
             = (Inr (accepted (fetch_head w i (get_prop (candidates ! i) ''url''))), tr))
     \<and> (\<exists>s b. responses (run (hotel_images w body)) = [(s, b)]
           \<and> (s = 200 \<longrightarrow> (\<exists>tr'. b = JObj [(''hotelImages'',
                 JArr (kept_images w (extract_images (document w tr'))))])))"
proof -
  assume nn: "list_all (\<lambda>c. c \<noteq> JNull) candidates"
  have k: "kept_images (w \<lparr> completion_order := order \<rparr>) candidates = kept_images w candidates"
    by (simp add: kept_images_def)
  obtain s b where sb: "responses (run (hotel_images w body)) = [(s, b)]"
      "images_outcome w body s b"
    using hotel_images_outcome [of w body] by (auto simp: answers_def)
  have "s = 200 \<longrightarrow> (\<exists>tr'. b = JObj [(''hotelImages'',
                 JArr (kept_images w (extract_images (document w tr'))))])"
    using sb(2) by (auto simp: images_outcome_def split: if_splits)
  then have h: "\<exists>s b. responses (run (hotel_images w body)) = [(s, b)]
           \<and> (s = 200 \<longrightarrow> (\<exists>tr'. b = JObj [(''hotelImages'',
                 JArr (kept_images w (extract_images (document w tr'))))]))"
    using sb(1) by blast
  have p: "(\<exists>r. validation_pass w candidates tr = (Inr (), tr @ [r])
        \<and> (if kept_images w candidates = []
            then \<exists>b. r = Respond 404 b \<and> wire_keys b = [''error'', ''message'']
            else r = Respond 200 (JObj [(''hotelImages'', JArr (kept_images w candidates))])))
     \<and> validation_pass (w \<lparr> completion_order := order \<rparr>) candidates tr
         = validation_pass w candidates tr
     \<and> kept_images w candidates
         = map snd (filter (\<lambda>(i, img). accepted (fetch_head w i (get_prop img ''url'')))
                      (enumerate 0 candidates))
     \<and> (\<forall>i < length candidates.
           validateImageUrl w i (get_prop (candidates ! i) ''url'') tr
             = (Inr (accepted (fetch_head w i (get_prop (candidates ! i) ''url''))), tr))"
    unfolding validation_pass_result [OF nn] k
    by (simp add: kept_images_def validateImageUrl_accepted)
  show ?thesis using p h by blast
qed

text \<open>C2, witness: three photos, the second answers 404 as HTML, the requests settle in the
  order third, first, second: the first and the third photo are returned.\<close>

theorem validation_keeps_exactly_accepted_witness:
  "list_all (\<lambda>c. c \<noteq> JNull) (extract_images (gallery [''a.jpg'', ''b.jpg'', ''c.jpg'']))
   \<and> validation_pass flaky (extract_images (gallery [''a.jpg'', ''b.jpg'', ''c.jpg''])) []
       = (Inr (), [Respond 200 (JObj [(''hotelImages'',
             JArr [image_record (photo ''a.jpg''), image_record (photo ''c.jpg'')])])])"
proof -
  have nn: "list_all (\<lambda>c. c \<noteq> JNull) (extract_images (gallery [''a.jpg'', ''b.jpg'', ''c.jpg'']))"
    by (rule extract_images_objects)
  have k: "kept_images flaky (extract_images (gallery [''a.jpg'', ''b.jpg'', ''c.jpg'']))
             = [image_record (photo ''a.jpg''), image_record (photo ''c.jpg'')]"
    by (simp add: kept_images_def extract_images_def gallery_def flaky_def quiet_def accepted_def
          response_ok_def startsWith_def enumerate_eq_zip upt_rec numeral_nat)
  show ?thesis
    using nn validation_keeps_exactly_accepted [OF nn, of flaky "[]" "[]" empty_body] k
    by auto
qed

subsection \<open>C3: a missing required field gives 400 with an example\<close>

text \<open>C3 fails as stated: hotel-prices with an empty body answers 400 with the fields
  \<open>error\<close> and \<open>required\<close>, and no \<open>example\<close>.\<close>

theorem missing_field_counterexample:
  "(\<exists>b. run (hotel_prices quiet empty_body) = [Respond 400 b] \<and> \<not> has_field b ''example'')"
  by (simp add: hotel_prices_def io_defs example_defs has_field_def)

text \<open>C3, amended: when \<open>destination\<close> is missing (or falsy), hotel-info and hotel-images
  answer 400 with \<open>error\<close> and \<open>example\<close>, and nothing else happens; when one of the four
  fields of hotel-prices is missing (or falsy), it answers 400 with \<open>error\<close> and
  \<open>required\<close>, and no \<open>example\<close>.\<close>

theorem missing_field_rejected:
  "(\<not> truthy (body ''destination'') \<longrightarrow>
      (\<exists>b. run (hotel_info w body) = [Respond 400 b]
           \<and> has_field b ''error'' \<and> has_field b ''example'')
    \<and> (\<exists>b. run (hotel_images w body) = [Respond 400 b]
           \<and> has_field b ''error'' \<and> has_field b ''example''))
   \<and> (\<not> truthy (body ''hotelName'') \<or> \<not> truthy (body ''location'')
        \<or> \<not> truthy (body ''checkInDate'') \<or> \<not> truthy (body ''checkOutDate'') \<longrightarrow>
      (\<exists>b. run (hotel_prices w body) = [Respond 400 b]
           \<and> has_field b ''error'' \<and> has_field b ''required'' \<and> \<not> has_field b ''example''))"
  by (simp add: hotel_info_def hotel_images_def hotel_prices_def run_def try_catch_def respond_def
        has_field_def)

text \<open>C3, witness: the empty body on the three endpoints.\<close>

theorem missing_field_rejected_witness:
  "\<not> truthy (empty_body ''destination'') \<and> \<not> truthy (empty_body ''hotelName'')
   \<and> (\<exists>b. run (hotel_info quiet empty_body) = [Respond 400 b] \<and> has_field b ''example'')
   \<and> (\<exists>b. run (hotel_images quiet empty_body) = [Respond 400 b] \<and> has_field b ''example'')
   \<and> (\<exists>b. run (hotel_prices quiet empty_body) = [Respond 400 b] \<and> has_field b ''required'')"
  using missing_field_rejected [of empty_body quiet]
  by (auto simp: empty_body_def)

subsection \<open>C4: an absent landmark gives 404\<close>




subsection \<open>C5: at most ten suggestions and at most ten images\<close>

text \<open>C5: the suggestions extractor maps the first ten matched elements, the images
  extractor keeps the first ten records, and every 200 response of hotel-suggestions and of
  hotel-images carries a list of at most ten entries.\<close>

theorem extractors_keep_at_most_ten:
  \<open>extract_suggestions doc = map hotelData (take 10 (querySelectorAll doc ''div[class*="uaTTDe"]''))
   \<and> length (extract_suggestions doc) \<le> 10
   \<and> extract_images doc = take 10 (map image_record (querySelectorAll doc ''img[alt^="Photo "]''))
   \<and> length (extract_images doc) \<le> 10
   \<and> (\<exists>s b. responses (run (hotel_suggestions w body)) = [(s, b)]
         \<and> (s = 200 \<longrightarrow> (\<exists>xs. b = JObj [(''hotelSuggestions'', JArr xs)] \<and> length xs \<le> 10)))
   \<and> (\<exists>s b. responses (run (hotel_images w body)) = [(s, b)]
         \<and> (s = 200 \<longrightarrow> (\<exists>xs. b = JObj [(''hotelImages'', JArr xs)] \<and> length xs \<le> 10)))\<close>
proof -
  have kept: "length (kept_images w cs) \<le> length cs" for cs
    unfolding kept_images_def
    by (metis length_enumerate length_filter_le length_map)
  have img: "length (extract_images d) \<le> 10" for d
    by (simp add: extract_images_def)
  obtain s b where sb: "responses (run (hotel_suggestions w body)) = [(s, b)]"
      "suggestions_outcome w s b"
    using hotel_suggestions_outcome [of w body] by (auto simp: answers_def)
  have 1: "s = 200 \<longrightarrow> (\<exists>xs. b = JObj [(''hotelSuggestions'', JArr xs)] \<and> length xs \<le> 10)"
    using sb(2) by (auto simp: suggestions_outcome_def extract_suggestions_def split: if_splits)
  obtain s' b' where sb': "responses (run (hotel_images w body)) = [(s', b')]"
      "images_outcome w body s' b'"
    using hotel_images_outcome [of w body] by (auto simp: answers_def)
  have 2: "s' = 200 \<longrightarrow> (\<exists>xs. b' = JObj [(''hotelImages'', JArr xs)] \<and> length xs \<le> 10)"
    using sb'(2) kept img
    by (auto simp: images_outcome_def split: if_splits intro: order_trans)
  show ?thesis
    using sb(1) 1 sb'(1) 2 by (simp add: extract_suggestions_def extract_images_def)
qed

text \<open>C5, witness: a results page with twelve hotel elements gives a 200 response with at
  most ten suggestions.\<close>

theorem extractors_keep_at_most_ten_witness:
  \<open>length (querySelectorAll (results_page 12) ''div[class*="uaTTDe"]'') = 12
   \<and> length (extract_suggestions (results_page 12)) \<le> 10
   \<and> (\<exists>xs. responses (run (hotel_suggestions (showing (results_page 12)) full_body))
              = [(200, JObj [(''hotelSuggestions'', JArr xs)])] \<and> length xs \<le> 10)\<close>
proof -
  have r: \<open>\<exists>xs. responses (run (hotel_suggestions (showing (results_page 12)) full_body))
              = [(200, JObj [(''hotelSuggestions'', JArr xs)])]\<close>
    by (simp add: hotel_suggestions_def io_defs example_defs page_defs extract_suggestions_def
          querySelector_def)
  show ?thesis
    using r extractors_keep_at_most_ten [of "results_page 12" "showing (results_page 12)" full_body]
    by (auto simp: results_page_def)
qed

subsection \<open>C6: string fields of a successful payload are never undefined\<close>




subsection \<open>C7: no browser work before the required fields are checked\<close>

text \<open>C7 fails on the code for hotel-suggestions, which has no check of the body: with the
  empty body the first event is the launch of the browser, the query typed into the search
  box spells \<open>undefined\<close>, and the response is a 404; in no world does this handler
  answer 400. (The three other handlers answer 400 before any call: see C3.)\<close>

theorem suggestions_launch_without_destination:
  \<open>\<not> truthy (empty_body ''destination'')
   \<and> hd (run (hotel_suggestions quiet empty_body)) = Done Launch
   \<and> Done (TypeChar CHR ''u'') \<in> set (run (hotel_suggestions quiet empty_body))
   \<and> responses (run (hotel_suggestions quiet empty_body))
       = [(404, JObj [(''error'', JStr ''No hotel suggestions found'')])]
   \<and> (\<exists>s b. responses (run (hotel_suggestions w body)) = [(s, b)] \<and> s \<noteq> 400)\<close>
proof -
  obtain s b where sb: "responses (run (hotel_suggestions w body)) = [(s, b)]"
      "suggestions_outcome w s b"
    using hotel_suggestions_outcome [of w body] by (auto simp: answers_def)
  have "s \<noteq> 400" using sb(2) by (auto simp: suggestions_outcome_def split: if_splits)
  then show ?thesis using sb(1)
    by (simp add: hotel_suggestions_def io_defs example_defs querySelector_def
          extract_suggestions_def)
qed

subsection \<open>C8: a failure body has an error and a message\<close>

text \<open>C8 fails as stated: the 400 of hotel-images has no \<open>message\<close>, and neither has the
  404 of hotel-suggestions.\<close>

theorem failure_body_counterexample:
  "(\<exists>b. run (hotel_images quiet empty_body) = [Respond 400 b] \<and> \<not> has_field b ''message'')
   \<and> (\<exists>b. responses (run (hotel_suggestions quiet empty_body)) = [(404, b)]
          \<and> \<not> has_field b ''message'')"
  by (simp add: hotel_images_def hotel_suggestions_def io_defs example_defs has_field_def
        querySelector_def extract_suggestions_def)

text \<open>C8, amended: every response other than a 200 has an \<open>error\<close> field; every 500 has a
  \<open>message\<close>, and so has every 404 of hotel-info, hotel-images and hotel-prices.\<close>

theorem failure_body_fields:
  "(\<exists>s b. responses (run (hotel_info w body)) = [(s, b)]
        \<and> (s \<noteq> 200 \<longrightarrow> has_field b ''error'')
        \<and> (s = 404 \<or> s = 500 \<longrightarrow> has_field b ''message''))
   \<and> (\<exists>s b. responses (run (hotel_images w body)) = [(s, b)]
        \<and> (s \<noteq> 200 \<longrightarrow> has_field b ''error'')
        \<and> (s = 404 \<or> s = 500 \<longrightarrow> has_field b ''message''))
   \<and> (\<exists>s b. responses (run (hotel_prices w body)) = [(s, b)]
        \<and> (s \<noteq> 200 \<longrightarrow> has_field b ''error'')
        \<and> (s = 404 \<or> s = 500 \<longrightarrow> has_field b ''message''))
   \<and> (\<exists>s b. responses (run (hotel_suggestions w body)) = [(s, b)]
        \<and> (s \<noteq> 200 \<longrightarrow> has_field b ''error'')
        \<and> (s = 500 \<longrightarrow> has_field b ''message''))"
proof -
  obtain s1 b1 where 1: "responses (run (hotel_info w body)) = [(s1, b1)]"
      "info_outcome w body s1 b1"
    using hotel_info_outcome [of w body] by (auto simp: answers_def)
  obtain s2 b2 where 2: "responses (run (hotel_images w body)) = [(s2, b2)]"
      "images_outcome w body s2 b2"
    using hotel_images_outcome [of w body] by (auto simp: answers_def)
  obtain s3 b3 where 3: "responses (run (hotel_prices w body)) = [(s3, b3)]"
      "prices_outcome w body s3 b3"
    using hotel_prices_outcome [of w body] by (auto simp: answers_def)
  obtain s4 b4 where 4: "responses (run (hotel_suggestions w body)) = [(s4, b4)]"
      "suggestions_outcome w s4 b4"
    using hotel_suggestions_outcome [of w body] by (auto simp: answers_def)
  have a: "(s1 \<noteq> 200 \<longrightarrow> has_field b1 ''error'') \<and> (s1 = 404 \<or> s1 = 500 \<longrightarrow> has_field b1 ''message'')"
    using 1(2) has_field_error_body
    by (auto simp: info_outcome_def has_field_def split: if_splits)
  have b: "(s2 \<noteq> 200 \<longrightarrow> has_field b2 ''error'') \<and> (s2 = 404 \<or> s2 = 500 \<longrightarrow> has_field b2 ''message'')"
    using 2(2) has_field_error_body
    by (auto simp: images_outcome_def has_field_def split: if_splits)
  have c: "(s3 \<noteq> 200 \<longrightarrow> has_field b3 ''error'') \<and> (s3 = 404 \<or> s3 = 500 \<longrightarrow> has_field b3 ''message'')"
    using 3(2) has_field_error_body
    by (auto simp: prices_outcome_def has_field_def split: if_splits)
  have d: "(s4 \<noteq> 200 \<longrightarrow> has_field b4 ''error'') \<and> (s4 = 500 \<longrightarrow> has_field b4 ''message'')"
    using 4(2) has_field_error_body
    by (auto simp: suggestions_outcome_def has_field_def split: if_splits)
  show ?thesis using 1(1) 2(1) 3(1) 4(1) a b c d by simp
qed

text \<open>C8, witness: where the landmark never appears, hotel-info answers 500 and
  hotel-prices 404, both with \<open>error\<close> and \<open>message\<close>; hotel-suggestions answers 404
  with \<open>error\<close>.\<close>

theorem failure_body_fields_witness:
  \<open>(\<exists>b. responses (run (hotel_info barren full_body)) = [(500, b)]
        \<and> has_field b ''error'' \<and> has_field b ''message'')
   \<and> (\<exists>b. responses (run (hotel_prices barren full_body)) = [(404, b)]
        \<and> has_field b ''error'' \<and> has_field b ''message'')
   \<and> (\<exists>b. responses (run (hotel_suggestions barren full_body)) = [(404, b)]
        \<and> has_field b ''error'')\<close>
proof -
  have 1: "\<exists>b. responses (run (hotel_info barren full_body)) = [(500, b)]"
    by (simp add: hotel_info_def io_defs example_defs querySelector_def)
  have 2: "\<exists>b. responses (run (hotel_prices barren full_body)) = [(404, b)]"
    by (simp add: hotel_prices_def io_defs example_defs querySelector_def extract_prices_def
          click_prices_tab_def)
  have 3: "\<exists>b. responses (run (hotel_suggestions barren full_body)) = [(404, b)]"
    by (simp add: hotel_suggestions_def io_defs example_defs querySelector_def)
  from failure_body_fields [of barren full_body]
  obtain s1 b1 s3 b3 s4 b4 where
    i: "responses (run (hotel_info barren full_body)) = [(s1, b1)]"
       "s1 \<noteq> 200 \<longrightarrow> has_field b1 ''error''"
       "s1 = 404 \<or> s1 = 500 \<longrightarrow> has_field b1 ''message''"
    and p: "responses (run (hotel_prices barren full_body)) = [(s3, b3)]"
       "s3 \<noteq> 200 \<longrightarrow> has_field b3 ''error''"
       "s3 = 404 \<or> s3 = 500 \<longrightarrow> has_field b3 ''message''"
    and g: "responses (run (hotel_suggestions barren full_body)) = [(s4, b4)]"
       "s4 \<noteq> 200 \<longrightarrow> has_field b4 ''error''"
    by blast
  have a: "\<exists>b. responses (run (hotel_info barren full_body)) = [(500, b)]
        \<and> has_field b ''error'' \<and> has_field b ''message''"
    using 1 i by auto
  have b: "\<exists>b. responses (run (hotel_prices barren full_body)) = [(404, b)]
        \<and> has_field b ''error'' \<and> has_field b ''message''"
    using 2 p by auto
  have c: "\<exists>b. responses (run (hotel_suggestions barren full_body)) = [(404, b)]
        \<and> has_field b ''error''"
    using 3 g by auto
  show ?thesis using a b c by blast
qed

subsection \<open>C9: the price listing and its rooms\<close>

text \<open>C9 fails in its last part: no 200 response of hotel-prices carries a listing whose
  rooms array is empty. The provider section is a \<open>div\<close> in which \<open>querySelector\<close> finds an
  offer link, so \<open>querySelectorAll\<close> with the same selector finds at least that one.\<close>

theorem empty_rooms_counterexample:
  "\<not> (\<exists>w body listings.
        (200, JObj [(''prices'', JArr listings)]) \<in> set (responses (run (hotel_prices w body)))
        \<and> JObj [(''rooms'', JArr [])] \<in> set listings)"
proof
  assume "\<exists>w body listings.
        (200, JObj [(''prices'', JArr listings)]) \<in> set (responses (run (hotel_prices w body)))
        \<and> JObj [(''rooms'', JArr [])] \<in> set listings"
  then obtain w body listings where
    h: "(200, JObj [(''prices'', JArr listings)]) \<in> set (responses (run (hotel_prices w body)))"
       "JObj [(''rooms'', JArr [])] \<in> set listings"
    by blast
  from prices_rooms_never_empty [of w body] obtain s b where
    sb: "responses (run (hotel_prices w body)) = [(s, b)]"
        "s = 200 \<longrightarrow> (\<exists>rooms. b = JObj [(''prices'', JArr [JObj [(''rooms'', JArr rooms)]])] \<and> rooms \<noteq> [])"
    by (auto simp: answers_def)
  from h(1) sb(1) have "s = 200" "b = JObj [(''prices'', JArr listings)]" by auto
  then obtain rooms where "listings = [JObj [(''rooms'', JArr rooms)]]" "rooms \<noteq> []"
    using sb(2) by auto
  then show False using h(2) by auto
qed

text \<open>C9, amended: the extraction gives the empty list exactly when no \<open>div\<close> holds an
  offer link (then the response is not a 200), and otherwise the one listing whose rooms
  are the records of the offer links of the first such \<open>div\<close>, at least one; every 200
  response of hotel-prices carries exactly one listing, with a rooms array that is not
  empty.\<close>

theorem prices_listing_shape:
  \<open>((extract_prices doc = [])
      = (\<forall>d \<in> set (querySelectorAll doc ''div''). querySelectorAll d ''a[href^="/aclk?"]'' = []))
   \<and> (extract_prices doc \<noteq> [] \<longrightarrow>
        (\<exists>providerSection.
           find (\<lambda>d. querySelector d ''a[href^="/aclk?"]'' \<noteq> None) (querySelectorAll doc ''div'')
             = Some providerSection
           \<and> querySelectorAll providerSection ''a[href^="/aclk?"]'' \<noteq> []
           \<and> extract_prices doc = [JObj [(''rooms'',
                JArr (map roomData (querySelectorAll providerSection ''a[href^="/aclk?"]'')))]]))
   \<and> (\<exists>s b. responses (run (hotel_prices w body)) = [(s, b)]
         \<and> (s = 200 \<longrightarrow>
              (\<exists>rooms. b = JObj [(''prices'', JArr [JObj [(''rooms'', JArr rooms)]])] \<and> rooms \<noteq> []))
         \<and> ((\<forall>tr. extract_prices (document w tr) = []) \<longrightarrow> s \<noteq> 200))\<close>
proof -
  obtain s b where sb: "responses (run (hotel_prices w body)) = [(s, b)]"
      "prices_outcome w body s b"
    using hotel_prices_outcome [of w body] by (auto simp: answers_def)
  from prices_rooms_never_empty [of w body] sb(1)
  have r: "s = 200 \<longrightarrow>
      (\<exists>rooms. b = JObj [(''prices'', JArr [JObj [(''rooms'', JArr rooms)]])] \<and> rooms \<noteq> [])"
    by (auto simp: answers_def)
  have e: "(\<forall>tr. extract_prices (document w tr) = []) \<longrightarrow> s \<noteq> 200"
    using sb(2) by (auto simp: prices_outcome_def split: if_splits)
  have shape: \<open>extract_prices doc \<noteq> [] \<longrightarrow>
        (\<exists>providerSection.
           find (\<lambda>d. querySelector d ''a[href^="/aclk?"]'' \<noteq> None) (querySelectorAll doc ''div'')
             = Some providerSection
           \<and> querySelectorAll providerSection ''a[href^="/aclk?"]'' \<noteq> []
           \<and> extract_prices doc = [JObj [(''rooms'',
                JArr (map roomData (querySelectorAll providerSection ''a[href^="/aclk?"]'')))]])\<close>
    using extract_prices_shape [of doc] by blast
  show ?thesis
    using extract_prices_empty_iff [of doc] shape sb(1) r e by blast
qed

text \<open>C9, witness: the page with one offer gives a 200 with one room; the blank page gives
  no 200.\<close>

theorem prices_listing_shape_witness:
  \<open>extract_prices prices_page \<noteq> []
   \<and> extract_prices blank = []
   \<and> (\<forall>tr. extract_prices (document quiet tr) = [])
   \<and> (\<exists>rooms. responses (run (hotel_prices (showing prices_page) full_body))
         = [(200, JObj [(''prices'', JArr [JObj [(''rooms'', JArr rooms)]])])] \<and> rooms \<noteq> [])
   \<and> (\<exists>s b. responses (run (hotel_prices quiet full_body)) = [(s, b)] \<and> s \<noteq> 200)\<close>
proof -
  have a: "extract_prices prices_page \<noteq> []" "extract_prices blank = []"
      "\<forall>tr. extract_prices (document quiet tr) = []"
    by (simp_all add: extract_prices_def page_defs example_defs querySelector_def)
  have b: "\<exists>b. responses (run (hotel_prices (showing prices_page) full_body)) = [(200, b)]"
    by (simp add: hotel_prices_def io_defs example_defs page_defs querySelector_def
          extract_prices_def click_prices_tab_def)
  from prices_listing_shape [of prices_page "showing prices_page" full_body]
  obtain s b where 1: "responses (run (hotel_prices (showing prices_page) full_body)) = [(s, b)]"
      "s = 200 \<longrightarrow>
         (\<exists>rooms. b = JObj [(''prices'', JArr [JObj [(''rooms'', JArr rooms)]])] \<and> rooms \<noteq> [])"
    by blast
  have c: "\<exists>rooms. responses (run (hotel_prices (showing prices_page) full_body))
         = [(200, JObj [(''prices'', JArr [JObj [(''rooms'', JArr rooms)]])])] \<and> rooms \<noteq> []"
    using b 1 by auto
  from prices_listing_shape [of blank quiet full_body]
  obtain s' b' where 2: "responses (run (hotel_prices quiet full_body)) = [(s', b')]"
      "(\<forall>tr. extract_prices (document quiet tr) = []) \<longrightarrow> s' \<noteq> 200"
    by blast
  have d: "\<exists>s b. responses (run (hotel_prices quiet full_body)) = [(s, b)] \<and> s \<noteq> 200"
    using 2 a(3) by blast
  show ?thesis using a c d by blast
qed

subsection \<open>C10: validateImageUrl is total\<close>

text \<open>C10: \<open>validateImageUrl\<close> always returns a boolean and never throws; a rejected
  request or a missing content type gives \<open>false\<close>.\<close>

theorem validateImageUrl_total:
  "(\<exists>b. validateImageUrl w i url tr = (Inr b, tr))
   \<and> (\<forall>e. fetch_head w i url = Rejected e \<longrightarrow> validateImageUrl w i url tr = (Inr False, tr))
   \<and> (\<forall>st. fetch_head w i url = Response st None \<longrightarrow> validateImageUrl w i url tr = (Inr False, tr))"
  by (cases "fetch_head w i url")
     (auto simp: validateImageUrl_def fetch_def try_catch_def io_bind_def io_throw_def
        io_return_def)

text \<open>C10, witness: with the network down the request is rejected and the answer is
  \<open>false\<close>.\<close>

theorem validateImageUrl_total_witness:
  "fetch_head offline 0 (JStr ''http://x/y.jpg'')
     = Rejected (Error ''getaddrinfo ENOTFOUND'' ''FetchError'')
   \<and> validateImageUrl offline 0 (JStr ''http://x/y.jpg'') [] = (Inr False, [])"
  using validateImageUrl_total [of offline 0 "JStr ''http://x/y.jpg''" "[]"]
  by (simp add: offline_def quiet_def)

end
